theory Spec2Isabelle
  imports Complex_Main "HOL-Library.Log_Nat"
begin

section \<open>IEEE-754 binary floating point (\<open>mrb_float\<close>)\<close>

text \<open>
  \<open>mrb_float\<close> is \<open>double\<close>, or \<open>float\<close> when \<open>MRB_USE_FLOAT32\<close> is defined.
  A value is a finite number (sign bit and magnitude, so that the two zeros are
  distinct), an infinity or a NaN; the sign bit of a NaN is kept because
  \<open>signbit\<close>, \<open>copysign\<close> and unary minus read or write it. NaN payloads are
  not read by any operation of the program and are not modelled.
  Invariant of \<open>Fin s m\<close>: \<open>0 \<le> m\<close>.
\<close>

datatype mrb_float = Fin bool real | Infinity bool | NaN bool

record format =
  prec :: nat   \<comment> \<open>bits of the significand, hidden bit included\<close>
  emax :: int   \<comment> \<open>all finite values are below \<open>2 ^ emax\<close>\<close>

definition binary64 :: format where
  "binary64 = \<lparr>prec = 53, emax = 1024\<rparr>"

definition binary32 :: format where
  "binary32 = \<lparr>prec = 24, emax = 128\<rparr>"

definition emin :: "format \<Rightarrow> int" where
  "emin fmt = 2 - emax fmt"

definition pow2 :: "int \<Rightarrow> real" where
  "pow2 k = (if 0 \<le> k then 2 ^ nat k else 1 / 2 ^ nat (- k))"

text \<open>\<open>ilog2 a\<close> is the exponent \<open>e\<close> with \<open>2^e \<le> a < 2^(e+1)\<close>, for \<open>a > 0\<close>.\<close>

definition ilog2 :: "real \<Rightarrow> int" where
  "ilog2 a = (if 1 \<le> a then bitlen \<lfloor>a\<rfloor> - 1 else - bitlen (\<lceil>1 / a\<rceil> - 1))"

text \<open>Round to the nearest integer, ties to even.\<close>

definition rhe :: "real \<Rightarrow> int" where
  "rhe x = (let f = \<lfloor>x\<rfloor>; d = x - of_int f in
            if d < 1 / 2 then f
            else if 1 / 2 < d then f + 1
            else if even f then f else f + 1)"

text \<open>
  Rounding of a magnitude \<open>a \<ge> 0\<close> to the format, unbounded above: the spacing of
  the format at \<open>a\<close> is \<open>2^(e - prec + 1)\<close>, with \<open>e\<close> not below \<open>emin\<close> (subnormals).
\<close>

definition round_mag :: "format \<Rightarrow> real \<Rightarrow> real" where
  "round_mag fmt a =
     (if a \<le> 0 then 0
      else let e = max (ilog2 a) (emin fmt);
               u = pow2 (e - int (prec fmt) + 1)
           in of_int (rhe (a / u)) * u)"

text \<open>Round-to-nearest-even with overflow to infinity; \<open>s\<close> is the sign of the exact result.\<close>

definition fround :: "format \<Rightarrow> bool \<Rightarrow> real \<Rightarrow> mrb_float" where
  "fround fmt s a =
     (let r = round_mag fmt a in if pow2 (emax fmt) \<le> r then Infinity s else Fin s r)"

subsection \<open>Classification and sign operations\<close>

fun isnan :: "mrb_float \<Rightarrow> bool" where
  "isnan (NaN s) = True"
| "isnan _ = False"

fun isinf :: "mrb_float \<Rightarrow> bool" where
  "isinf (Infinity s) = True"
| "isinf _ = False"

fun signbit :: "mrb_float \<Rightarrow> bool" where
  "signbit (Fin s m) = s"
| "signbit (Infinity s) = s"
| "signbit (NaN s) = s"

fun set_sign :: "bool \<Rightarrow> mrb_float \<Rightarrow> mrb_float" where
  "set_sign t (Fin s m) = Fin t m"
| "set_sign t (Infinity s) = Infinity t"
| "set_sign t (NaN s) = NaN t"

definition copysign :: "mrb_float \<Rightarrow> mrb_float \<Rightarrow> mrb_float" where
  "copysign x y = set_sign (signbit y) x"

definition fabs :: "mrb_float \<Rightarrow> mrb_float" where
  "fabs x = set_sign False x"

text \<open>Unary minus flips the sign bit, of a NaN too.\<close>

definition fneg :: "mrb_float \<Rightarrow> mrb_float" where
  "fneg x = set_sign (\<not> signbit x) x"

subsection \<open>Comparisons\<close>

definition sval :: "bool \<Rightarrow> real \<Rightarrow> real" where
  "sval s m = (if s then - m else m)"

text \<open>\<open>x < y\<close>: false when an operand is a NaN; the two zeros compare equal.\<close>

fun flt :: "mrb_float \<Rightarrow> mrb_float \<Rightarrow> bool" where
  "flt (NaN s) y = False"
| "flt x (NaN t) = False"
| "flt (Infinity s) (Infinity t) = (s \<and> \<not> t)"
| "flt (Infinity s) (Fin t n) = s"
| "flt (Fin s m) (Infinity t) = (\<not> t)"
| "flt (Fin s m) (Fin t n) = (sval s m < sval t n)"

fun feq :: "mrb_float \<Rightarrow> mrb_float \<Rightarrow> bool" where
  "feq (NaN s) y = False"
| "feq x (NaN t) = False"
| "feq (Infinity s) (Infinity t) = (s = t)"
| "feq (Infinity s) (Fin t n) = False"
| "feq (Fin s m) (Infinity t) = False"
| "feq (Fin s m) (Fin t n) = (sval s m = sval t n)"

definition fle :: "mrb_float \<Rightarrow> mrb_float \<Rightarrow> bool" where
  "fle x y = (flt x y \<or> feq x y)"

definition fgt :: "mrb_float \<Rightarrow> mrb_float \<Rightarrow> bool" where
  "fgt x y = flt y x"

subsection \<open>Arithmetic\<close>

text \<open>
  Every operation rounds its exact result once (no excess precision, no fused
  multiply-add). The sign of a NaN that an operation produces is not fixed by
  IEEE 754; it is the parameter \<open>ns\<close>, a function of the two operands.
\<close>

type_synonym nan_sign = "mrb_float \<Rightarrow> mrb_float \<Rightarrow> bool"

fun fadd :: "format \<Rightarrow> nan_sign \<Rightarrow> mrb_float \<Rightarrow> mrb_float \<Rightarrow> mrb_float" where
  "fadd fmt ns (Fin s m) (Fin t n) =
     (let v = sval s m + sval t n in
      if v = 0 then Fin (s \<and> t) 0 else fround fmt (v < 0) \<bar>v\<bar>)"
| "fadd fmt ns (Fin s m) (Infinity t) = Infinity t"
| "fadd fmt ns (Infinity s) (Fin t n) = Infinity s"
| "fadd fmt ns (Infinity s) (Infinity t) = (if s = t then Infinity s else NaN (ns (Infinity s) (Infinity t)))"
| "fadd fmt ns x y = NaN (ns x y)"

definition fsub :: "format \<Rightarrow> nan_sign \<Rightarrow> mrb_float \<Rightarrow> mrb_float \<Rightarrow> mrb_float" where
  "fsub fmt ns x y =
     (if isnan x \<or> isnan y \<or> (isinf x \<and> isinf y \<and> signbit x = signbit y)
      then NaN (ns x y)
      else fadd fmt ns x (fneg y))"

fun fmul :: "format \<Rightarrow> nan_sign \<Rightarrow> mrb_float \<Rightarrow> mrb_float \<Rightarrow> mrb_float" where
  "fmul fmt ns (Fin s m) (Fin t n) = fround fmt (s \<noteq> t) (m * n)"
| "fmul fmt ns (Fin s m) (Infinity t) =
     (if m = 0 then NaN (ns (Fin s m) (Infinity t)) else Infinity (s \<noteq> t))"
| "fmul fmt ns (Infinity s) (Fin t n) =
     (if n = 0 then NaN (ns (Infinity s) (Fin t n)) else Infinity (s \<noteq> t))"
| "fmul fmt ns (Infinity s) (Infinity t) = Infinity (s \<noteq> t)"
| "fmul fmt ns x y = NaN (ns x y)"

fun fdiv :: "format \<Rightarrow> nan_sign \<Rightarrow> mrb_float \<Rightarrow> mrb_float \<Rightarrow> mrb_float" where
  "fdiv fmt ns (Fin s m) (Fin t n) =
     (if n = 0 then (if m = 0 then NaN (ns (Fin s m) (Fin t n)) else Infinity (s \<noteq> t))
      else fround fmt (s \<noteq> t) (m / n))"
| "fdiv fmt ns (Fin s m) (Infinity t) = Fin (s \<noteq> t) 0"
| "fdiv fmt ns (Infinity s) (Fin t n) = Infinity (s \<noteq> t)"
| "fdiv fmt ns (Infinity s) (Infinity t) = NaN (ns (Infinity s) (Infinity t))"
| "fdiv fmt ns x y = NaN (ns x y)"

text \<open>Conversions: between the two formats, from a decimal literal, from an integer.\<close>

fun fcast :: "format \<Rightarrow> mrb_float \<Rightarrow> mrb_float" where
  "fcast fmt (Fin s m) = fround fmt s m"
| "fcast fmt x = x"

definition flit :: "format \<Rightarrow> real \<Rightarrow> mrb_float" where
  "flit fmt q = fround fmt (q < 0) \<bar>q\<bar>"

definition of_mrb_int :: "format \<Rightarrow> int \<Rightarrow> mrb_float" where
  "of_mrb_int fmt n = fround fmt (n < 0) \<bar>of_int n\<bar>"


section \<open>Build configuration and external functions\<close>

text \<open>
  The source is one C file, compiled once per configuration. What the file takes
  from outside is a parameter of the model: the preprocessor switches, the
  functions of the C mathematical library behind the macro \<open>F(name)\<close> (\<open>name\<close>
  in a double build, \<open>namef\<close> in a float build), and the compiler's
  multiplication and division of two \<open>_Complex\<close> values.
\<close>

type_synonym mrb_complex = "mrb_float \<times> mrb_float"

record env =
  MRB_USE_FLOAT32 :: bool
  WIN32_MSVC :: bool          \<comment> \<open>\<open>defined(_WIN32) && !defined(__MINGW32__)\<close>\<close>
  HAVE_M_E :: bool            \<comment> \<open>the headers define \<open>M_E\<close>\<close>
  nan_sgn :: nan_sign
  F_exp :: "mrb_float \<Rightarrow> mrb_float"
  libm_log :: "mrb_float \<Rightarrow> mrb_float"    \<comment> \<open>\<open>log\<close> on \<open>double\<close>\<close>
  libm_logf :: "mrb_float \<Rightarrow> mrb_float"   \<comment> \<open>\<open>logf\<close> on \<open>float\<close>\<close>
  F_log2 :: "mrb_float \<Rightarrow> mrb_float"
  F_log10 :: "mrb_float \<Rightarrow> mrb_float"
  F_sqrt :: "mrb_float \<Rightarrow> mrb_float"
  F_sin :: "mrb_float \<Rightarrow> mrb_float"
  F_cos :: "mrb_float \<Rightarrow> mrb_float"
  F_tan :: "mrb_float \<Rightarrow> mrb_float"
  F_asin :: "mrb_float \<Rightarrow> mrb_float"
  F_acos :: "mrb_float \<Rightarrow> mrb_float"
  F_atan :: "mrb_float \<Rightarrow> mrb_float"
  F_sinh :: "mrb_float \<Rightarrow> mrb_float"
  F_cosh :: "mrb_float \<Rightarrow> mrb_float"
  F_tanh :: "mrb_float \<Rightarrow> mrb_float"
  F_asinh :: "mrb_float \<Rightarrow> mrb_float"
  F_acosh :: "mrb_float \<Rightarrow> mrb_float"
  F_atanh :: "mrb_float \<Rightarrow> mrb_float"
  F_hypot :: "mrb_float \<Rightarrow> mrb_float \<Rightarrow> mrb_float"
  F_atan2 :: "mrb_float \<Rightarrow> mrb_float \<Rightarrow> mrb_float"
  cx_mul :: "mrb_complex \<Rightarrow> mrb_complex \<Rightarrow> mrb_complex"  \<comment> \<open>\<open>_Complex * _Complex\<close>\<close>
  cx_div :: "mrb_complex \<Rightarrow> mrb_complex \<Rightarrow> mrb_complex"  \<comment> \<open>\<open>_Complex / _Complex\<close>\<close>

definition mrb_fmt :: "env \<Rightarrow> format" where
  "mrb_fmt E = (if MRB_USE_FLOAT32 E then binary32 else binary64)"

definition F_log :: "env \<Rightarrow> mrb_float \<Rightarrow> mrb_float" where
  "F_log E = (if MRB_USE_FLOAT32 E then libm_logf E else libm_log E)"

text \<open>The arithmetic of \<open>mrb_float\<close> in the configured format.\<close>

definition addF :: "env \<Rightarrow> mrb_float \<Rightarrow> mrb_float \<Rightarrow> mrb_float" where
  "addF E = fadd (mrb_fmt E) (nan_sgn E)"

definition subF :: "env \<Rightarrow> mrb_float \<Rightarrow> mrb_float \<Rightarrow> mrb_float" where
  "subF E = fsub (mrb_fmt E) (nan_sgn E)"

definition mulF :: "env \<Rightarrow> mrb_float \<Rightarrow> mrb_float \<Rightarrow> mrb_float" where
  "mulF E = fmul (mrb_fmt E) (nan_sgn E)"

definition divF :: "env \<Rightarrow> mrb_float \<Rightarrow> mrb_float \<Rightarrow> mrb_float" where
  "divF E = fdiv (mrb_fmt E) (nan_sgn E)"

text \<open>A \<open>double\<close> value stored into an \<open>mrb_float\<close>.\<close>

definition to_mrb_float :: "env \<Rightarrow> mrb_float \<Rightarrow> mrb_float" where
  "to_mrb_float E d = (if MRB_USE_FLOAT32 E then fcast binary32 d else d)"

text \<open>Constants of the source. \<open>NAN\<close> and \<open>INFINITY\<close> are the positive ones.\<close>

abbreviation zeroF :: mrb_float where "zeroF \<equiv> Fin False 0"
abbreviation oneF :: mrb_float where "oneF \<equiv> Fin False 1"
abbreviation NAN :: mrb_float where "NAN \<equiv> NaN False"
abbreviation INFINITY :: mrb_float where "INFINITY \<equiv> Infinity False"

definition M_E :: "env \<Rightarrow> mrb_float" where
  "M_E E = (if HAVE_M_E E then flit binary64 (27182818284590452354 / 10 ^ 19)
            else F_exp E oneF)"

definition M_LN2 :: "env \<Rightarrow> mrb_float" where
  \<comment> \<open>\<open>(mrb_float)0.69314718055994530942\<close>\<close>
  "M_LN2 E = to_mrb_float E (flit binary64 (69314718055994530942 / 10 ^ 20))"

section \<open>Complex primitives\<close>

definition cmath_build_complex :: "mrb_float \<Rightarrow> mrb_float \<Rightarrow> mrb_complex" where
  "cmath_build_complex x y = (x, y)"

definition cmath_creal :: "mrb_complex \<Rightarrow> mrb_float" where
  "cmath_creal c = fst c"

definition cmath_cimag :: "mrb_complex \<Rightarrow> mrb_float" where
  "cmath_cimag c = snd c"

text \<open>
  Arithmetic of the compiler on \<open>_Complex\<close> operands, where an operand is real
  (C Annex G.5: the real operand is not converted to a complex one) or where
  the operation is componentwise.
\<close>

definition cx_neg :: "mrb_complex \<Rightarrow> mrb_complex" where
  "cx_neg c = (fneg (fst c), fneg (snd c))"

definition cx_add :: "env \<Rightarrow> mrb_complex \<Rightarrow> mrb_complex \<Rightarrow> mrb_complex" where
  "cx_add E a b = (addF E (fst a) (fst b), addF E (snd a) (snd b))"

definition cx_add_real :: "env \<Rightarrow> mrb_complex \<Rightarrow> mrb_float \<Rightarrow> mrb_complex" where
  "cx_add_real E c r = (addF E (fst c) r, snd c)"

definition cx_sub_real :: "env \<Rightarrow> mrb_complex \<Rightarrow> mrb_float \<Rightarrow> mrb_complex" where
  "cx_sub_real E c r = (subF E (fst c) r, snd c)"

definition real_add_cx :: "env \<Rightarrow> mrb_float \<Rightarrow> mrb_complex \<Rightarrow> mrb_complex" where
  "real_add_cx E r c = (addF E r (fst c), snd c)"

definition real_sub_cx :: "env \<Rightarrow> mrb_float \<Rightarrow> mrb_complex \<Rightarrow> mrb_complex" where
  "real_sub_cx E r c = (subF E r (fst c), fneg (snd c))"

definition real_mul_cx :: "env \<Rightarrow> mrb_float \<Rightarrow> mrb_complex \<Rightarrow> mrb_complex" where
  "real_mul_cx E r c = (mulF E r (fst c), mulF E r (snd c))"

text \<open>\<open>CXDIVf\<close> and \<open>CXDIVc\<close>, the functions of the \<open>WIN32_MSVC\<close> branch.\<close>

definition CXDIVf :: "env \<Rightarrow> mrb_complex \<Rightarrow> mrb_float \<Rightarrow> mrb_complex" where
  "CXDIVf E x y =
     cmath_build_complex (divF E (cmath_creal x) y) (divF E (cmath_cimag x) y)"

definition CXDIVc :: "env \<Rightarrow> mrb_complex \<Rightarrow> mrb_complex \<Rightarrow> mrb_complex" where
  "CXDIVc E a b =
     (let abr = cmath_creal b;
          abr = (if flt abr zeroF then fneg abr else abr);
          abi = cmath_cimag b;
          abi = (if flt abi zeroF then fneg abi else abi)
      in if fle abr abi then
           (let ratio = divF E (cmath_creal b) (cmath_cimag b);
                den = mulF E (cmath_cimag a) (addF E oneF (mulF E ratio ratio));
                cr = divF E (addF E (mulF E (cmath_creal a) ratio) (cmath_cimag a)) den;
                ci = divF E (subF E (mulF E (cmath_cimag a) ratio) (cmath_creal a)) den
            in cmath_build_complex cr ci)
         else
           (let ratio = divF E (cmath_cimag b) (cmath_creal b);
                den = mulF E (cmath_creal a) (addF E oneF (mulF E ratio ratio));
                cr = divF E (addF E (cmath_creal a) (mulF E (cmath_cimag a) ratio)) den;
                ci = divF E (subF E (cmath_cimag a) (mulF E (cmath_creal a) ratio)) den
            in cmath_build_complex cr ci))"

text \<open>
  The macros \<open>CXDIVf(x,y)\<close> and \<open>CXDIVc(x,y)\<close> of the other branch are \<open>(x)/(y)\<close>.
  Both callers of \<open>CXDIVf\<close> pass a \<open>double\<close> divisor, so in a float build the
  quotient is computed in \<open>double\<close> and rounded when it is stored.
\<close>

definition CXDIVf_macro :: "env \<Rightarrow> mrb_complex \<Rightarrow> mrb_float \<Rightarrow> mrb_complex" where
  "CXDIVf_macro E x y =
     (to_mrb_float E (fdiv binary64 (nan_sgn E) (fst x) y),
      to_mrb_float E (fdiv binary64 (nan_sgn E) (snd x) y))"

text \<open>What the names \<open>CXDIVf\<close> and \<open>CXDIVc\<close> stand for in the configured build.\<close>

definition CXDIVf_cfg :: "env \<Rightarrow> mrb_complex \<Rightarrow> mrb_float \<Rightarrow> mrb_complex" where
  "CXDIVf_cfg E x y =
     (if WIN32_MSVC E then CXDIVf E x (to_mrb_float E y) else CXDIVf_macro E x y)"

definition CXDIVc_cfg :: "env \<Rightarrow> mrb_complex \<Rightarrow> mrb_complex \<Rightarrow> mrb_complex" where
  "CXDIVc_cfg E x y = (if WIN32_MSVC E then CXDIVc E x y else cx_div E x y)"


section \<open>Elementary functions on complex values\<close>

definition cmath_cexp :: "env \<Rightarrow> mrb_complex \<Rightarrow> mrb_complex" where
  "cmath_cexp E c =
     (let x = cmath_creal c; y = cmath_cimag c;
          general = (let r = F_exp E x in
                     cmath_build_complex (mulF E r (F_cos E y)) (mulF E r (F_sin E y)))
      in if isnan x then
           (if feq y zeroF then cmath_build_complex NAN y
            else cmath_build_complex NAN NAN)
         else if feq x INFINITY then
           (if isnan y \<or> isinf y then cmath_build_complex INFINITY NAN
            else if feq y zeroF then c
            else general)
         else if feq x (fneg INFINITY) then
           (if isnan y \<or> isinf y then
              cmath_build_complex zeroF (copysign zeroF y)
            else general)
         else general)"

definition cmath_clog :: "env \<Rightarrow> mrb_complex \<Rightarrow> mrb_complex" where
  "cmath_clog E c =
     (let x = cmath_creal c; y = cmath_cimag c;
          r = F_hypot E x y;
          t = F_atan2 E y x
      in cmath_build_complex (F_log E r) t)"

definition csqrt_cutoff :: "env \<Rightarrow> mrb_float" where
  "csqrt_cutoff E =
     (if MRB_USE_FLOAT32 E then fcast binary32 (flit binary64 (10 ^ 38))
      else flit binary64 (10 ^ 308))"

definition cmath_csqrt :: "env \<Rightarrow> mrb_complex \<Rightarrow> mrb_complex" where
  "cmath_csqrt E c =
     (let x = cmath_creal c; y = cmath_cimag c in
      if feq y zeroF then
        (if isnan x then cmath_build_complex x x
         else if signbit x then
           cmath_build_complex zeroF (copysign (F_sqrt E (fneg x)) y)
         else cmath_build_complex (F_sqrt E x) y)
      else
        (if isinf x \<and> isinf y then cmath_build_complex INFINITY y
         else if isinf x \<and> isnan y then
           (if signbit x then cmath_build_complex y INFINITY else c)
         else if isinf x then
           (if signbit x then cmath_build_complex zeroF (copysign INFINITY y)
            else cmath_build_complex INFINITY (copysign zeroF y))
         else if isinf y then cmath_build_complex INFINITY y
         else
           (let cutoff = csqrt_cutoff E;
                scale = (fgt (fabs x) cutoff \<or> fgt (fabs y) cutoff);
                x = (if scale then divF E x (Fin False 4) else x);
                y = (if scale then divF E y (Fin False 4) else y);
                r = F_hypot E x y;
                t = F_atan2 E y x;
                r = F_sqrt E r;
                t = divF E t (Fin False 2);
                r = (if scale then mulF E r (Fin False 2) else r)
            in cmath_build_complex (mulF E r (F_cos E t)) (mulF E r (F_sin E t)))))"

definition cmath_csin :: "env \<Rightarrow> mrb_complex \<Rightarrow> mrb_complex" where
  "cmath_csin E c =
     (let x = cmath_creal c; y = cmath_cimag c;
          cx = F_cos E x; sx = F_sin E x;
          cy = F_cosh E y; sy = F_sinh E y
      in cmath_build_complex (mulF E sx cy) (mulF E cx sy))"

definition cmath_ccos :: "env \<Rightarrow> mrb_complex \<Rightarrow> mrb_complex" where
  "cmath_ccos E c =
     (let x = cmath_creal c; y = cmath_cimag c;
          cx = F_cos E x; sx = F_sin E x;
          cy = F_cosh E y; sy = F_sinh E y
      in cmath_build_complex (mulF E cx cy) (mulF E (fneg sx) sy))"

definition cutoff1 :: "env \<Rightarrow> mrb_float" where
  "cutoff1 E = (if MRB_USE_FLOAT32 E then Fin False 53 else Fin False 373)"

definition cutoff2 :: "env \<Rightarrow> mrb_float" where
  "cutoff2 E =
     (if MRB_USE_FLOAT32 E then Fin False (0x10A2B24 / 2 ^ 21)
      else Fin False (0x13001004048044 / 2 ^ 48))"

definition cmath_ctan :: "env \<Rightarrow> mrb_complex \<Rightarrow> mrb_complex" where
  "cmath_ctan E c =
     (let x = cmath_creal c; y = cmath_cimag c;
          cx = F_cos E x; sx = F_sin E x
      in if fgt (fabs y) (cutoff1 E) then
           cmath_build_complex (copysign zeroF (mulF E sx cx)) (copysign oneF y)
         else if fgt (fabs y) (cutoff2 E) then
           (let cy = F_cosh E y in
            cmath_build_complex (divF E (divF E (mulF E sx cx) cy) cy) (copysign oneF y))
         else
           (let cy = F_cosh E y; sy = F_sinh E y;
                d = addF E (mulF E (mulF E (mulF E cx cx) cy) cy)
                           (mulF E (mulF E (mulF E sx sx) sy) sy)
            in cmath_build_complex (divF E (mulF E sx cx) d) (divF E (mulF E sy cy) d)))"

definition cmath_csinh :: "env \<Rightarrow> mrb_complex \<Rightarrow> mrb_complex" where
  "cmath_csinh E c =
     (let x = cmath_creal c; y = cmath_cimag c;
          cx = F_cosh E x; sx = F_sinh E x;
          cy = F_cos E y; sy = F_sin E y
      in cmath_build_complex (mulF E sx cy) (mulF E cx sy))"

definition cmath_ccosh :: "env \<Rightarrow> mrb_complex \<Rightarrow> mrb_complex" where
  "cmath_ccosh E c =
     (let x = cmath_creal c; y = cmath_cimag c in
      if isnan x then
        (if isnan y \<or> isinf y then cmath_build_complex NAN NAN
         else cmath_build_complex NAN (if feq y zeroF then y else NAN))
      else if isinf x then
        (if isnan y \<or> isinf y then cmath_build_complex INFINITY NAN
         else if feq y zeroF then
           cmath_build_complex INFINITY (if signbit x then fneg y else y)
         else
           (let cy = F_cos E y; sy = F_sin E y in
            cmath_build_complex (mulF E INFINITY cy) (mulF E x sy)))
      else
        (if isnan y \<or> isinf y then
           cmath_build_complex NAN (if feq x zeroF then zeroF else NAN)
         else
           (let cx = F_cosh E x; sx = F_sinh E x;
                cy = F_cos E y; sy = F_sin E y
            in cmath_build_complex (mulF E cx cy) (mulF E sx sy))))"

definition cmath_ctanh :: "env \<Rightarrow> mrb_complex \<Rightarrow> mrb_complex" where
  "cmath_ctanh E c =
     (let x = cmath_creal c; y = cmath_cimag c;
          cy = F_cos E y; sy = F_sin E y
      in if fgt (fabs x) (cutoff1 E) then
           cmath_build_complex (copysign oneF x) zeroF
         else if fgt (fabs x) (cutoff2 E) then
           (let cx = F_cosh E x in
            cmath_build_complex (copysign oneF x) (divF E (divF E (mulF E sy cy) cx) cx))
         else
           (let cx = F_cosh E x; sx = F_sinh E x;
                d = addF E (mulF E (mulF E (mulF E cx cx) cy) cy)
                           (mulF E (mulF E (mulF E sx sx) sy) sy)
            in cmath_build_complex (divF E (mulF E sx cx) d) (divF E (mulF E sy cy) d)))"

definition cutoff_1e8 :: mrb_float where
  "cutoff_1e8 = Fin False (10 ^ 8)"

definition cmath_casinh :: "env \<Rightarrow> mrb_complex \<Rightarrow> mrb_complex" where
  "cmath_casinh E c =
     (let x = cmath_creal c; y = cmath_cimag c in
      if fgt (fabs x) cutoff_1e8 \<or> fgt (fabs y) cutoff_1e8 then
        (if signbit x then
           cx_neg (cx_add_real E (cmath_clog E (cx_neg c)) (M_LN2 E))
         else cx_add_real E (cmath_clog E c) (M_LN2 E))
      else
        cmath_clog E
          (cx_add E c (cmath_csqrt E (cx_add_real E (cx_mul E c c) oneF))))"

definition cmath_cacosh :: "env \<Rightarrow> mrb_complex \<Rightarrow> mrb_complex" where
  "cmath_cacosh E c =
     (let x = cmath_creal c; y = cmath_cimag c in
      if fgt (fabs x) cutoff_1e8 \<or> fgt (fabs y) cutoff_1e8 then
        cx_add_real E (cmath_clog E c) (M_LN2 E)
      else
        cmath_clog E
          (cx_add E c
             (cx_mul E (cmath_csqrt E (cx_add_real E c oneF))
                       (cmath_csqrt E (cx_sub_real E c oneF)))))"

definition cmath_catanh :: "env \<Rightarrow> mrb_complex \<Rightarrow> mrb_complex" where
  "cmath_catanh E c =
     real_mul_cx E (Fin False (1 / 2))
       (cmath_clog E (cx_div E (real_add_cx E oneF c) (real_sub_cx E oneF c)))"

definition cmath_casin :: "env \<Rightarrow> mrb_complex \<Rightarrow> mrb_complex" where
  "cmath_casin E c =
     (let x1 = cmath_creal c; y1 = cmath_cimag c;
          c2 = cmath_build_complex (fneg y1) x1;
          d2 = cmath_casinh E c2;
          x2 = cmath_creal d2; y2 = cmath_cimag d2
      in cmath_build_complex y2 (fneg x2))"

definition cmath_cacos :: "env \<Rightarrow> mrb_complex \<Rightarrow> mrb_complex" where
  "cmath_cacos E c =
     (let d2 = cmath_cacosh E c;
          x2 = cmath_creal d2; y2 = cmath_cimag d2;
          d = cmath_build_complex y2 (fneg x2)
      in if signbit (cmath_creal d) then cx_neg d else d)"

definition cmath_catan :: "env \<Rightarrow> mrb_complex \<Rightarrow> mrb_complex" where
  "cmath_catan E c =
     (let x1 = cmath_creal c; y1 = cmath_cimag c;
          c2 = cmath_build_complex (fneg y1) x1;
          d2 = cmath_catanh E c2;
          x2 = cmath_creal d2; y2 = cmath_cimag d2
      in cmath_build_complex y2 (fneg x2))"


section \<open>The methods of module \<open>CMath\<close>\<close>

text \<open>
  An argument is a value of the interpreter: an Integer, a Float, a Complex, or
  a value of any other type (\<open>Other\<close>). \<open>mrb_raise\<close> does not return; a call
  that raises is the left injection of the result.
\<close>

datatype mrb_value =
  MRB_INTEGER int
| MRB_FLOAT mrb_float
| MRB_COMPLEX mrb_float mrb_float
| MRB_OTHER

datatype error = E_TYPE_ERROR string

definition mrb_complex_new :: "mrb_float \<Rightarrow> mrb_float \<Rightarrow> mrb_value" where
  "mrb_complex_new r i = MRB_COMPLEX r i"

definition mrb_float_value :: "mrb_float \<Rightarrow> mrb_value" where
  "mrb_float_value f = MRB_FLOAT f"

text \<open>\<open>cmath_get_complex\<close> returns the flag and the two numbers it stores through its pointers.\<close>

fun cmath_get_complex :: "env \<Rightarrow> mrb_value \<Rightarrow> error + (bool \<times> mrb_float \<times> mrb_float)" where
  "cmath_get_complex E (MRB_INTEGER n) = Inr (False, of_mrb_int (mrb_fmt E) n, zeroF)"
| "cmath_get_complex E (MRB_FLOAT f) = Inr (False, f, zeroF)"
| "cmath_get_complex E (MRB_COMPLEX r i) = Inr (True, r, i)"
| "cmath_get_complex E MRB_OTHER = Inl (E_TYPE_ERROR ''Numeric required'')"

text \<open>
  The macro \<open>DEF_CMATH_METHOD(name)\<close>, with the two functions its expansion names:
  \<open>cmath_c ## name\<close> and \<open>F(name)\<close>.
\<close>

definition DEF_CMATH_METHOD ::
  "(mrb_complex \<Rightarrow> mrb_complex) \<Rightarrow> (mrb_float \<Rightarrow> mrb_float) \<Rightarrow> env \<Rightarrow> mrb_value
     \<Rightarrow> error + mrb_value" where
  "DEF_CMATH_METHOD cname fname E z =
     (case cmath_get_complex E z of
        Inl e \<Rightarrow> Inl e
      | Inr (is_complex, re, im) \<Rightarrow>
          if is_complex then
            (let c = cmath_build_complex re im;
                 c = cname c
             in Inr (mrb_complex_new (cmath_creal c) (cmath_cimag c)))
          else Inr (mrb_float_value (fname re)))"

definition cmath_exp :: "env \<Rightarrow> mrb_value \<Rightarrow> error + mrb_value" where
  "cmath_exp E = DEF_CMATH_METHOD (cmath_cexp E) (F_exp E) E"

text \<open>
  \<open>cmath_log\<close>: \<open>mrb_get_args(mrb, "o|f", &z, &base)\<close> returns the number of
  arguments, 1 or 2; the optional second one arrives as an \<open>mrb_float\<close>.
\<close>

definition cmath_log :: "env \<Rightarrow> mrb_value \<Rightarrow> mrb_float option \<Rightarrow> error + mrb_value" where
  "cmath_log E z base_arg =
     (let (n, base) = (case base_arg of None \<Rightarrow> (1 :: int, to_mrb_float E (M_E E))
                                      | Some b \<Rightarrow> (2, b))
      in case cmath_get_complex E z of
           Inl e \<Rightarrow> Inl e
         | Inr (is_complex, re, im) \<Rightarrow>
             if is_complex \<or> flt re zeroF then
               (let c = cmath_build_complex re im;
                    c = cmath_clog E c;
                    c = (if n = 2
                         then CXDIVc_cfg E c (cmath_clog E (cmath_build_complex base zeroF))
                         else c)
                in Inr (mrb_complex_new (cmath_creal c) (cmath_cimag c)))
             else if n = 1 then Inr (mrb_float_value (F_log E re))
             else Inr (mrb_float_value (divF E (F_log E re) (F_log E base))))"

definition cmath_log10 :: "env \<Rightarrow> mrb_value \<Rightarrow> error + mrb_value" where
  "cmath_log10 E z =
     (case cmath_get_complex E z of
        Inl e \<Rightarrow> Inl e
      | Inr (is_complex, re, im) \<Rightarrow>
          if is_complex \<or> flt re zeroF then
            (let c = cmath_build_complex re im;
                 c = CXDIVf_cfg E (cmath_clog E c) (libm_log E (Fin False 10))
             in Inr (mrb_complex_new (cmath_creal c) (cmath_cimag c)))
          else Inr (mrb_float_value (F_log10 E re)))"

definition cmath_log2 :: "env \<Rightarrow> mrb_value \<Rightarrow> error + mrb_value" where
  "cmath_log2 E z =
     (case cmath_get_complex E z of
        Inl e \<Rightarrow> Inl e
      | Inr (is_complex, re, im) \<Rightarrow>
          if is_complex \<or> flt re zeroF then
            (let c = cmath_build_complex re im;
                 c = CXDIVf_cfg E (cmath_clog E c) (libm_log E (Fin False 2))
             in Inr (mrb_complex_new (cmath_creal c) (cmath_cimag c)))
          else Inr (mrb_float_value (F_log2 E re)))"

definition cmath_sqrt :: "env \<Rightarrow> mrb_value \<Rightarrow> error + mrb_value" where
  "cmath_sqrt E z =
     (case cmath_get_complex E z of
        Inl e \<Rightarrow> Inl e
      | Inr (is_complex, re, im) \<Rightarrow>
          if is_complex \<or> flt re zeroF then
            (let c = cmath_build_complex re im;
                 c = cmath_csqrt E c
             in Inr (mrb_complex_new (cmath_creal c) (cmath_cimag c)))
          else Inr (mrb_float_value (F_sqrt E re)))"

definition cmath_sin :: "env \<Rightarrow> mrb_value \<Rightarrow> error + mrb_value" where
  "cmath_sin E = DEF_CMATH_METHOD (cmath_csin E) (F_sin E) E"

definition cmath_cos :: "env \<Rightarrow> mrb_value \<Rightarrow> error + mrb_value" where
  "cmath_cos E = DEF_CMATH_METHOD (cmath_ccos E) (F_cos E) E"

definition cmath_tan :: "env \<Rightarrow> mrb_value \<Rightarrow> error + mrb_value" where
  "cmath_tan E = DEF_CMATH_METHOD (cmath_ctan E) (F_tan E) E"

definition cmath_asin :: "env \<Rightarrow> mrb_value \<Rightarrow> error + mrb_value" where
  "cmath_asin E = DEF_CMATH_METHOD (cmath_casin E) (F_asin E) E"

definition cmath_acos :: "env \<Rightarrow> mrb_value \<Rightarrow> error + mrb_value" where
  "cmath_acos E = DEF_CMATH_METHOD (cmath_cacos E) (F_acos E) E"

definition cmath_atan :: "env \<Rightarrow> mrb_value \<Rightarrow> error + mrb_value" where
  "cmath_atan E = DEF_CMATH_METHOD (cmath_catan E) (F_atan E) E"

definition cmath_sinh :: "env \<Rightarrow> mrb_value \<Rightarrow> error + mrb_value" where
  "cmath_sinh E = DEF_CMATH_METHOD (cmath_csinh E) (F_sinh E) E"

definition cmath_cosh :: "env \<Rightarrow> mrb_value \<Rightarrow> error + mrb_value" where
  "cmath_cosh E = DEF_CMATH_METHOD (cmath_ccosh E) (F_cosh E) E"

definition cmath_tanh :: "env \<Rightarrow> mrb_value \<Rightarrow> error + mrb_value" where
  "cmath_tanh E = DEF_CMATH_METHOD (cmath_ctanh E) (F_tanh E) E"

definition cmath_asinh :: "env \<Rightarrow> mrb_value \<Rightarrow> error + mrb_value" where
  "cmath_asinh E = DEF_CMATH_METHOD (cmath_casinh E) (F_asinh E) E"

definition cmath_acosh :: "env \<Rightarrow> mrb_value \<Rightarrow> error + mrb_value" where
  "cmath_acosh E = DEF_CMATH_METHOD (cmath_cacosh E) (F_acosh E) E"

definition cmath_atanh :: "env \<Rightarrow> mrb_value \<Rightarrow> error + mrb_value" where
  "cmath_atanh E = DEF_CMATH_METHOD (cmath_catanh E) (F_atanh E) E"


section \<open>A reference environment\<close>

text \<open>
  One concrete environment, at which the theorems below are instantiated: the
  library functions are the correctly rounded real functions, with the special
  values of C Annex F; the compiler multiplies and divides complex values by
  the textbook formulas; an operation that produces a NaN hands on the sign of
  a NaN operand, and makes a negative NaN from other operands.
\<close>

definition round_real :: "format \<Rightarrow> bool \<Rightarrow> real \<Rightarrow> mrb_float" where
  \<comment> \<open>\<open>s\<close> is the sign given to an exact zero\<close>
  "round_real fmt s v = (if v = 0 then Fin s 0 else flit fmt v)"

definition ref_nan_sgn :: nan_sign where
  "ref_nan_sgn x y = (if isnan x then signbit x else if isnan y then signbit y else True)"

fun ref_exp :: "format \<Rightarrow> mrb_float \<Rightarrow> mrb_float" where
  "ref_exp fmt (Fin s m) = flit fmt (exp (sval s m))"
| "ref_exp fmt (Infinity s) = (if s then zeroF else INFINITY)"
| "ref_exp fmt (NaN s) = NaN s"

fun ref_log :: "format \<Rightarrow> (real \<Rightarrow> real) \<Rightarrow> mrb_float \<Rightarrow> mrb_float" where
  "ref_log fmt lg (Fin s m) =
     (if m = 0 then Infinity True else if s then NAN else round_real fmt False (lg m))"
| "ref_log fmt lg (Infinity s) = (if s then NAN else INFINITY)"
| "ref_log fmt lg (NaN s) = NaN s"

fun ref_sqrt :: "format \<Rightarrow> mrb_float \<Rightarrow> mrb_float" where
  "ref_sqrt fmt (Fin s m) =
     (if m = 0 then Fin s 0 else if s then NAN else flit fmt (sqrt m))"
| "ref_sqrt fmt (Infinity s) = (if s then NAN else INFINITY)"
| "ref_sqrt fmt (NaN s) = NaN s"

text \<open>
  A function defined where \<open>defd\<close> holds on the real line, with its value
  \<open>at_inf s\<close> at the infinity of sign \<open>s\<close>; \<open>sgn_arg\<close> says that a zero result
  takes the sign of the argument.
\<close>

fun ref_fun ::
  "format \<Rightarrow> (real \<Rightarrow> real) \<Rightarrow> (real \<Rightarrow> bool) \<Rightarrow> bool \<Rightarrow> (bool \<Rightarrow> mrb_float)
     \<Rightarrow> mrb_float \<Rightarrow> mrb_float" where
  "ref_fun fmt f defd sgn_arg at_inf (Fin s m) =
     (if defd (sval s m) then round_real fmt (sgn_arg \<and> s) (f (sval s m)) else NAN)"
| "ref_fun fmt f defd sgn_arg at_inf (Infinity s) = at_inf s"
| "ref_fun fmt f defd sgn_arg at_inf (NaN s) = NaN s"

fun ref_atanh :: "format \<Rightarrow> mrb_float \<Rightarrow> mrb_float" where
  "ref_atanh fmt (Fin s m) =
     (if m < 1 then round_real fmt s (artanh (sval s m))
      else if m = 1 then Infinity s else NAN)"
| "ref_atanh fmt (Infinity s) = NAN"
| "ref_atanh fmt (NaN s) = NaN s"

definition ref_hypot :: "format \<Rightarrow> mrb_float \<Rightarrow> mrb_float \<Rightarrow> mrb_float" where
  "ref_hypot fmt x y =
     (if isinf x \<or> isinf y then INFINITY
      else case (x, y) of
             (Fin s m, Fin t n) \<Rightarrow> round_real fmt False (sqrt (m * m + n * n))
           | _ \<Rightarrow> NAN)"

text \<open>The angle of \<open>atan2(y, x)\<close> for \<open>y\<close> of positive sign, between 0 and \<open>pi\<close>.\<close>

fun ref_angle :: "mrb_float \<Rightarrow> mrb_float \<Rightarrow> real" where
  "ref_angle (Infinity t) (Infinity s) = (if s then 3 * pi / 4 else pi / 4)"
| "ref_angle (Infinity t) x = pi / 2"
| "ref_angle y (Infinity s) = (if s then pi else 0)"
| "ref_angle (Fin t n) (Fin s m) =
     (if n = 0 then (if s then pi else 0)
      else if m = 0 then pi / 2
      else if s then pi - arctan (n / m)
      else arctan (n / m))"
| "ref_angle y x = 0"

definition ref_atan2 :: "format \<Rightarrow> mrb_float \<Rightarrow> mrb_float \<Rightarrow> mrb_float" where
  "ref_atan2 fmt y x =
     (if isnan x then x else if isnan y then y
      else fround fmt (signbit y) (ref_angle y x))"

definition ref_cx_mul :: "format \<Rightarrow> mrb_complex \<Rightarrow> mrb_complex \<Rightarrow> mrb_complex" where
  "ref_cx_mul fmt a b =
     (fsub fmt ref_nan_sgn (fmul fmt ref_nan_sgn (fst a) (fst b))
                           (fmul fmt ref_nan_sgn (snd a) (snd b)),
      fadd fmt ref_nan_sgn (fmul fmt ref_nan_sgn (fst a) (snd b))
                           (fmul fmt ref_nan_sgn (snd a) (fst b)))"

definition ref_cx_div :: "format \<Rightarrow> mrb_complex \<Rightarrow> mrb_complex \<Rightarrow> mrb_complex" where
  "ref_cx_div fmt a b =
     (let d = fadd fmt ref_nan_sgn (fmul fmt ref_nan_sgn (fst b) (fst b))
                                   (fmul fmt ref_nan_sgn (snd b) (snd b))
      in (fdiv fmt ref_nan_sgn
            (fadd fmt ref_nan_sgn (fmul fmt ref_nan_sgn (fst a) (fst b))
                                  (fmul fmt ref_nan_sgn (snd a) (snd b))) d,
          fdiv fmt ref_nan_sgn
            (fsub fmt ref_nan_sgn (fmul fmt ref_nan_sgn (snd a) (fst b))
                                  (fmul fmt ref_nan_sgn (fst a) (snd b))) d))"

definition ref_env :: "bool \<Rightarrow> bool \<Rightarrow> env" where
  "ref_env float32 msvc =
     (let fmt = (if float32 then binary32 else binary64) in
      \<lparr> MRB_USE_FLOAT32 = float32,
        WIN32_MSVC = msvc,
        HAVE_M_E = True,
        nan_sgn = ref_nan_sgn,
        F_exp = ref_exp fmt,
        libm_log = ref_log binary64 ln,
        libm_logf = ref_log binary32 ln,
        F_log2 = ref_log fmt (log 2),
        F_log10 = ref_log fmt (log 10),
        F_sqrt = ref_sqrt fmt,
        F_sin = ref_fun fmt sin (\<lambda>v. True) True (\<lambda>s. NAN),
        F_cos = ref_fun fmt cos (\<lambda>v. True) False (\<lambda>s. NAN),
        F_tan = ref_fun fmt tan (\<lambda>v. True) True (\<lambda>s. NAN),
        F_asin = ref_fun fmt arcsin (\<lambda>v. \<bar>v\<bar> \<le> 1) True (\<lambda>s. NAN),
        F_acos = ref_fun fmt arccos (\<lambda>v. \<bar>v\<bar> \<le> 1) False (\<lambda>s. NAN),
        F_atan = ref_fun fmt arctan (\<lambda>v. True) True (\<lambda>s. fround fmt s (pi / 2)),
        F_sinh = ref_fun fmt sinh (\<lambda>v. True) True Infinity,
        F_cosh = ref_fun fmt cosh (\<lambda>v. True) False (\<lambda>s. INFINITY),
        F_tanh = ref_fun fmt tanh (\<lambda>v. True) True (\<lambda>s. Fin s 1),
        F_asinh = ref_fun fmt arsinh (\<lambda>v. True) True Infinity,
        F_acosh = ref_fun fmt arcosh (\<lambda>v. 1 \<le> v) False
                    (\<lambda>s. if s then NAN else INFINITY),
        F_atanh = ref_atanh fmt,
        F_hypot = ref_hypot fmt,
        F_atan2 = ref_atan2 fmt,
        cx_mul = ref_cx_mul fmt,
        cx_div = ref_cx_div fmt \<rparr>)"

definition env64 :: env where
  "env64 = ref_env False False"

definition env64_msvc :: env where
  "env64_msvc = ref_env False True"

definition env32 :: env where
  "env32 = ref_env True False"

section \<open>The module table\<close>

text \<open>
  The functions that \<open>mrb_mruby_cmath_alt_gem_init\<close> registers in module \<open>CMath\<close>,
  under their names; \<open>base\<close> is the optional second argument of \<open>log\<close>.
\<close>

definition cmath_methods ::
  "env \<Rightarrow> mrb_float option \<Rightarrow> (string \<times> (mrb_value \<Rightarrow> error + mrb_value)) list" where
  "cmath_methods E base =
     [(''sin'', cmath_sin E), (''cos'', cmath_cos E), (''tan'', cmath_tan E),
      (''asin'', cmath_asin E), (''acos'', cmath_acos E), (''atan'', cmath_atan E),
      (''sinh'', cmath_sinh E), (''cosh'', cmath_cosh E), (''tanh'', cmath_tanh E),
      (''asinh'', cmath_asinh E), (''acosh'', cmath_acosh E), (''atanh'', cmath_atanh E),
      (''exp'', cmath_exp E), (''log'', \<lambda>z. cmath_log E z base),
      (''log2'', cmath_log2 E), (''log10'', cmath_log10 E), (''sqrt'', cmath_sqrt E)]"

section \<open>Notions of the specification\<close>

text \<open>
  The division algorithm as the specification words it: the ratio of the
  smaller to the larger component of \<open>b\<close>, and the denominator made from the
  larger component of \<open>b\<close>. It is compared with \<open>CXDIVc\<close> below.
\<close>

definition Divide_spec :: "env \<Rightarrow> mrb_complex \<Rightarrow> mrb_complex \<Rightarrow> mrb_complex" where
  "Divide_spec E a b =
     (if fle (fabs (fst b)) (fabs (snd b)) then
        (let r = divF E (fst b) (snd b);
             den = mulF E (snd b) (addF E oneF (mulF E r r))
         in (divF E (addF E (mulF E (fst a) r) (snd a)) den,
             divF E (subF E (mulF E (snd a) r) (fst a)) den))
      else
        (let r = divF E (snd b) (fst b);
             den = mulF E (fst b) (addF E oneF (mulF E r r))
         in (divF E (addF E (fst a) (mulF E (snd a) r)) den,
             divF E (subF E (snd a) (mulF E (fst a) r)) den)))"

text \<open>The quarter turn \<open>rot(x, y) = (-y, x)\<close> and its inverse.\<close>

definition rot :: "mrb_complex \<Rightarrow> mrb_complex" where
  "rot z = (fneg (snd z), fst z)"

definition rot_inv :: "mrb_complex \<Rightarrow> mrb_complex" where
  "rot_inv z = (snd z, fneg (fst z))"

text \<open>The kind of an operand and of a result.\<close>

definition promoting :: "string list" where
  "promoting = [''log'', ''log10'', ''log2'', ''sqrt'']"

definition is_complex_result :: "error + mrb_value \<Rightarrow> bool" where
  "is_complex_result r = (case r of Inr (MRB_COMPLEX x y) \<Rightarrow> True | _ \<Rightarrow> False)"

definition is_float_result :: "error + mrb_value \<Rightarrow> bool" where
  "is_float_result r = (case r of Inr (MRB_FLOAT f) \<Rightarrow> True | _ \<Rightarrow> False)"

definition complex_operand :: "mrb_value \<Rightarrow> bool" where
  "complex_operand z = (case z of MRB_COMPLEX x y \<Rightarrow> True | _ \<Rightarrow> False)"

definition negative_real :: "mrb_value \<Rightarrow> bool" where
  "negative_real z =
     (case z of MRB_INTEGER n \<Rightarrow> n < 0 | MRB_FLOAT f \<Rightarrow> flt f zeroF | _ \<Rightarrow> False)"

section \<open>Facts about the floating-point operations\<close>

lemma feq_INFINITY: "feq x INFINITY \<longleftrightarrow> x = Infinity False"
  by (cases x) auto

lemma feq_neg_INFINITY: "feq x (fneg INFINITY) \<longleftrightarrow> x = Infinity True"
  by (cases x) (auto simp: fneg_def)

lemma feq_zeroF: "feq y zeroF \<longleftrightarrow> (\<exists>s. y = Fin s 0)"
  by (cases y) (auto simp: sval_def)

subsection \<open>Rounding\<close>

lemma pow2_powi: "pow2 k = 2 powi k"
  unfolding pow2_def power_int_def
  by (simp add: power_inverse inverse_eq_divide power_one_over)

lemma pow2_pos: "0 < pow2 k"
  by (simp add: pow2_powi)

lemma pow2_add: "pow2 (a + b) = pow2 a * pow2 b"
  by (simp add: pow2_powi power_int_add)

lemma pow2_mono: "a \<le> b \<Longrightarrow> pow2 a \<le> pow2 b"
  by (simp add: pow2_powi power_int_increasing)

lemma pow2_nat: "pow2 (int n) = 2 ^ n"
  by (simp add: pow2_def)

lemma rhe_of_int: "rhe (of_int k) = k"
  by (simp add: rhe_def)

lemma rhe_ge_floor: "\<lfloor>x\<rfloor> \<le> rhe x"
  by (simp add: rhe_def Let_def)

lemma ilog2_ge1:
  assumes "1 \<le> a"
  shows "0 \<le> ilog2 a" and "pow2 (ilog2 a) \<le> a" and "a < pow2 (ilog2 a + 1)"
proof -
  have pos: "0 < \<lfloor>a\<rfloor>" using assms by linarith
  from bitlen_bounds[OF pos]
  have lo: "2 ^ nat (bitlen \<lfloor>a\<rfloor> - 1) \<le> \<lfloor>a\<rfloor>" and hi: "\<lfloor>a\<rfloor> < 2 ^ nat (bitlen \<lfloor>a\<rfloor>)"
    by auto
  have b1: "1 \<le> bitlen \<lfloor>a\<rfloor>"
    using pos bitlen_eq_zero_iff[of "\<lfloor>a\<rfloor>"] bitlen_nonneg[of "\<lfloor>a\<rfloor>"] by linarith
  have il: "ilog2 a = bitlen \<lfloor>a\<rfloor> - 1" using assms by (simp add: ilog2_def)
  show "0 \<le> ilog2 a" using b1 il by simp
  have "pow2 (ilog2 a) = of_int (2 ^ nat (bitlen \<lfloor>a\<rfloor> - 1))"
    using b1 il by (simp add: pow2_def)
  also have "\<dots> \<le> of_int \<lfloor>a\<rfloor>" using lo by (simp only: of_int_le_iff)
  also have "\<dots> \<le> a" by simp
  finally show "pow2 (ilog2 a) \<le> a" .
  have "\<lfloor>a\<rfloor> + 1 \<le> 2 ^ nat (bitlen \<lfloor>a\<rfloor>)" using hi by simp
  then have "of_int (\<lfloor>a\<rfloor> + 1) \<le> (of_int (2 ^ nat (bitlen \<lfloor>a\<rfloor>)) :: real)"
    by (simp only: of_int_le_iff)
  moreover have "a < of_int (\<lfloor>a\<rfloor> + 1)" by linarith
  moreover have "pow2 (ilog2 a + 1) = of_int (2 ^ nat (bitlen \<lfloor>a\<rfloor>))"
    using b1 il by (simp add: pow2_def)
  ultimately show "a < pow2 (ilog2 a + 1)" by linarith
qed

lemma round_mag_nonneg: "0 \<le> round_mag fmt a"
proof (cases "a \<le> 0")
  case True then show ?thesis by (simp add: round_mag_def)
next
  case False
  define u where "u = pow2 (max (ilog2 a) (emin fmt) - int (prec fmt) + 1)"
  have u: "0 < u" by (simp add: u_def pow2_pos)
  then have "0 \<le> a / u" using False by simp
  then have "0 \<le> \<lfloor>a / u\<rfloor>" by simp
  then have "0 \<le> rhe (a / u)" using rhe_ge_floor[of "a / u"] by linarith
  then show ?thesis using False u by (simp add: round_mag_def Let_def u_def)
qed

lemma round_mag_pos:
  assumes a: "1 \<le> a" and em: "emin fmt \<le> 0" and p: "0 < prec fmt"
  shows "0 < round_mag fmt a"
proof -
  define e where "e = ilog2 a"
  define u where "u = pow2 (e - int (prec fmt) + 1)"
  have e0: "0 \<le> e" and lo: "pow2 e \<le> a" using ilog2_ge1[OF a] by (auto simp: e_def)
  have mx: "max (ilog2 a) (emin fmt) = e" using e0 em by (simp add: e_def)
  have u: "0 < u" by (simp add: u_def pow2_pos)
  have "u \<le> pow2 e" unfolding u_def using p by (intro pow2_mono) simp
  then have "u \<le> a" using lo by simp
  then have "1 \<le> a / u" using u by (simp add: le_divide_eq)
  then have "1 \<le> \<lfloor>a / u\<rfloor>" by linarith
  then have "1 \<le> rhe (a / u)" using rhe_ge_floor[of "a / u"] by linarith
  then have "0 < (of_int (rhe (a / u)) :: real) * u" using u by simp
  then show ?thesis using a mx by (simp add: round_mag_def Let_def u_def)
qed

lemma round_mag_of_int:
  assumes k: "0 \<le> k" "k < 2 ^ prec fmt" and em: "emin fmt \<le> 0"
  shows "round_mag fmt (of_int k) = of_int k"
proof (cases "k = 0")
  case True then show ?thesis by (simp add: round_mag_def)
next
  case False
  define a :: real where "a = of_int k"
  have a1: "1 \<le> a" using False k by (simp add: a_def)
  define e where "e = ilog2 a"
  have e0: "0 \<le> e" and lo: "pow2 e \<le> a" using ilog2_ge1[OF a1] by (auto simp: e_def)
  have mx: "max (ilog2 a) (emin fmt) = e" using e0 em by (simp add: e_def)
  have "a < 2 ^ prec fmt" using k(2) unfolding a_def
    by (metis of_int_less_iff of_int_numeral of_int_power)
  then have "pow2 e < pow2 (int (prec fmt))" using lo by (simp add: pow2_nat)
  then have ep: "e < int (prec fmt)"
    using pow2_mono[of "int (prec fmt)" e] by (cases "e < int (prec fmt)") auto
  define n where "n = nat (int (prec fmt) - 1 - e)"
  have un: "pow2 (e - int (prec fmt) + 1) = 1 / 2 ^ n"
  proof (cases "e - int (prec fmt) + 1 = 0")
    case True then show ?thesis by (simp add: n_def pow2_def)
  next
    case False
    then have "e - int (prec fmt) + 1 < 0" using ep by simp
    moreover have "- (e - int (prec fmt) + 1) = int (prec fmt) - 1 - e" by simp
    ultimately show ?thesis by (simp add: n_def pow2_def)
  qed
  have "a / (1 / 2 ^ n) = of_int (k * 2 ^ n)" by (simp add: a_def)
  then have "rhe (a / (1 / 2 ^ n)) = k * 2 ^ n" by (simp only: rhe_of_int)
  then have "of_int (rhe (a / (1 / 2 ^ n))) * (1 / 2 ^ n) = a" by (simp add: a_def)
  then show ?thesis using a1 mx un unfolding a_def[symmetric]
    by (simp add: round_mag_def Let_def)
qed

lemma ilog2_lt1:
  assumes "0 < a" "a < 1"
  shows "pow2 (ilog2 a) \<le> a" and "a < pow2 (ilog2 a + 1)"
proof -
  define k where "k = \<lceil>1 / a\<rceil> - 1"
  have inv: "1 < 1 / a" using assms by simp
  then have k1: "0 < k" unfolding k_def by linarith
  from bitlen_bounds[OF k1]
  have lo: "2 ^ nat (bitlen k - 1) \<le> k" and hi: "k < 2 ^ nat (bitlen k)" by auto
  have b1: "1 \<le> bitlen k"
    using k1 bitlen_eq_zero_iff[of k] bitlen_nonneg[of k] by linarith
  have il: "ilog2 a = - bitlen k" using assms by (simp add: ilog2_def k_def)
  have "\<lceil>1 / a\<rceil> \<le> 2 ^ nat (bitlen k)" using hi by (simp add: k_def)
  then have "1 / a \<le> 2 ^ nat (bitlen k)" by (simp add: ceiling_le_iff)
  then have "1 \<le> a * 2 ^ nat (bitlen k)" using assms(1) by (simp add: divide_le_eq mult.commute)
  then have "1 / 2 ^ nat (bitlen k) \<le> a" by (simp add: divide_le_eq)
  moreover have "pow2 (ilog2 a) = 1 / 2 ^ nat (bitlen k)"
    using b1 il by (simp add: pow2_def)
  ultimately show "pow2 (ilog2 a) \<le> a" by simp
  have "2 ^ nat (bitlen k - 1) < \<lceil>1 / a\<rceil>" using lo by (simp add: k_def)
  then have "(2::real) ^ nat (bitlen k - 1) < 1 / a" by (simp add: less_ceiling_iff)
  then have "a * 2 ^ nat (bitlen k - 1) < 1" using assms(1) by (simp add: less_divide_eq mult.commute)
  then have lt: "a < 1 / 2 ^ nat (bitlen k - 1)" by (simp add: less_divide_eq)
  have "pow2 (ilog2 a + 1) = 1 / 2 ^ nat (bitlen k - 1)"
  proof (cases "bitlen k = 1")
    case True then show ?thesis using il by (simp add: pow2_def)
  next
    case False
    then have "ilog2 a + 1 < 0" using b1 il by simp
    moreover have "- (ilog2 a + 1) = bitlen k - 1" using il by simp
    ultimately show ?thesis by (simp add: pow2_def)
  qed
  then show "a < pow2 (ilog2 a + 1)" using lt by simp
qed

lemma ilog2_bounds:
  assumes "0 < a"
  shows "pow2 (ilog2 a) \<le> a \<and> a < pow2 (ilog2 a + 1)"
  using assms ilog2_ge1(2,3)[of a] ilog2_lt1[of a] by (cases "1 \<le> a") auto

lemma rhe_nearest: "\<bar>of_int (rhe x) - x\<bar> \<le> 1 / 2"
  by (simp add: rhe_def Let_def)

lemma round_mag_nearest:
  assumes "0 < a"
  shows "\<bar>round_mag fmt a - a\<bar> \<le> pow2 (max (ilog2 a) (emin fmt) - int (prec fmt) + 1) / 2"
proof -
  define u where "u = pow2 (max (ilog2 a) (emin fmt) - int (prec fmt) + 1)"
  have u: "0 < u" by (simp add: u_def pow2_pos)
  have "\<bar>of_int (rhe (a / u)) - a / u\<bar> * u \<le> 1 / 2 * u"
    using rhe_nearest[of "a / u"] u by (intro mult_right_mono) auto
  moreover have "(of_int (rhe (a / u)) - a / u) * u = of_int (rhe (a / u)) * u - a"
    using u by (simp add: left_diff_distrib)
  then have "\<bar>of_int (rhe (a / u)) - a / u\<bar> * u = \<bar>of_int (rhe (a / u)) * u - a\<bar>"
    using u by (metis abs_mult abs_of_pos)
  ultimately show ?thesis using assms by (simp add: round_mag_def Let_def u_def[symmetric])
qed

lemma round_mag_normal:
  assumes a: "pow2 (emin fmt) \<le> a" and p: "0 < prec fmt"
  shows "0 < round_mag fmt a" and "round_mag fmt a \<le> 2 * a"
proof -
  have a0: "0 < a" using a pow2_pos[of "emin fmt"] by linarith
  define e where "e = max (ilog2 a) (emin fmt)"
  define u where "u = pow2 (e - int (prec fmt) + 1)"
  have lo: "pow2 e \<le> a"
    using a ilog2_bounds[OF a0] by (cases "emin fmt \<le> ilog2 a") (simp_all add: e_def max_def)
  have u: "0 < u" by (simp add: u_def pow2_pos)
  have "u \<le> pow2 e" unfolding u_def using p by (intro pow2_mono) simp
  then have ua: "u \<le> a" using lo by simp
  then have "1 \<le> a / u" using u by (simp add: le_divide_eq)
  then have "1 \<le> \<lfloor>a / u\<rfloor>" by linarith
  then have "1 \<le> rhe (a / u)" using rhe_ge_floor[of "a / u"] by linarith
  then have "0 < (of_int (rhe (a / u)) :: real) * u" using u by simp
  then show "0 < round_mag fmt a" using a0 by (simp add: round_mag_def Let_def u_def e_def)
  have "\<bar>round_mag fmt a - a\<bar> \<le> u / 2"
    using round_mag_nearest[OF a0, of fmt] by (simp add: u_def e_def)
  then show "round_mag fmt a \<le> 2 * a" using ua by linarith
qed

lemma fround_zero: "fround fmt s 0 = Fin s 0"
  using pow2_pos[of "emax fmt"] by (simp add: fround_def round_mag_def not_le)

text \<open>Evaluation of the rounding at a number given by numerals.\<close>

lemmas round_eval =
  fround_def round_mag_def binary64_def binary32_def emin_def ilog2_def pow2_def rhe_def
  Let_def compute_bitlen sval_def

lemmas cx_simps = cmath_build_complex_def cmath_creal_def cmath_cimag_def

lemma mrb_fmt_emin: "emin (mrb_fmt E) \<le> 0"
  by (simp add: mrb_fmt_def emin_def binary32_def binary64_def)

lemma mrb_fmt_prec: "0 < prec (mrb_fmt E)"
  by (simp add: mrb_fmt_def binary32_def binary64_def)

lemma flt_fround_zeroF:
  assumes "emin fmt \<le> 0" "0 < prec fmt" and a: "a = 0 \<or> 1 \<le> a"
  shows "flt (fround fmt s a) zeroF \<longleftrightarrow> s \<and> 1 \<le> a"
proof (cases "1 \<le> a")
  case True
  then have "0 < round_mag fmt a" using assms(1,2) by (rule round_mag_pos)
  then show ?thesis using True by (simp add: fround_def Let_def sval_def)
next
  case False
  then have "a = 0" using a by simp
  then show ?thesis by (simp add: fround_zero sval_def)
qed

text \<open>The conversion of an integer keeps its sign, and is exact on a small integer.\<close>

lemma of_mrb_int_negative: "flt (of_mrb_int (mrb_fmt E) n) zeroF \<longleftrightarrow> n < 0"
proof -
  have "\<bar>n\<bar> = 0 \<or> 1 \<le> \<bar>n\<bar>" by linarith
  then have "real_of_int \<bar>n\<bar> = 0 \<or> 1 \<le> real_of_int \<bar>n\<bar>"
    by (metis of_int_0 of_int_1 of_int_le_iff)
  then have "\<bar>real_of_int n\<bar> = 0 \<or> 1 \<le> \<bar>real_of_int n\<bar>" by simp
  from flt_fround_zeroF[OF mrb_fmt_emin mrb_fmt_prec this]
  show ?thesis unfolding of_mrb_int_def by (cases "n = 0") auto
qed

lemma of_mrb_int_exact:
  assumes "\<bar>n\<bar> < 2 ^ prec (mrb_fmt E)"
  shows "of_mrb_int (mrb_fmt E) n = Fin (n < 0) \<bar>of_int n\<bar>"
proof -
  have r: "round_mag (mrb_fmt E) (of_int \<bar>n\<bar>) = of_int \<bar>n\<bar>"
    using assms mrb_fmt_emin by (intro round_mag_of_int) auto
  have "real_of_int \<bar>n\<bar> < 2 ^ prec (mrb_fmt E)"
    using assms by (metis of_int_less_iff of_int_numeral of_int_power)
  also have "(2::real) ^ prec (mrb_fmt E) \<le> pow2 (emax (mrb_fmt E))"
    by (simp add: mrb_fmt_def pow2_def binary32_def binary64_def)
  finally have "\<not> pow2 (emax (mrb_fmt E)) \<le> real_of_int \<bar>n\<bar>" by simp
  then show ?thesis using r by (simp add: of_mrb_int_def fround_def Let_def)
qed

subsection \<open>The reference environment\<close>

lemma env64_sel:
  "MRB_USE_FLOAT32 env64 = False" "WIN32_MSVC env64 = False" "nan_sgn env64 = ref_nan_sgn"
  "F_sin env64 = ref_fun binary64 sin (\<lambda>v. True) True (\<lambda>s. NAN)"
  "F_cos env64 = ref_fun binary64 cos (\<lambda>v. True) False (\<lambda>s. NAN)"
  "F_sqrt env64 = ref_sqrt binary64"
  "libm_log env64 = ref_log binary64 ln"
  "cx_div env64 = ref_cx_div binary64"
  by (simp_all add: env64_def ref_env_def)

lemma flit_one: "flit binary64 1 = Fin False 1"
  by (simp add: flit_def round_eval)

lemma flit_two: "flit binary64 2 = Fin False 2"
  by (simp add: flit_def round_eval)

lemma env64_sqrt_four: "F_sqrt env64 (Fin False 4) = Fin False 2"
  by (simp add: env64_sel flit_two)

lemma env64_log_one: "F_log env64 oneF = zeroF"
  by (simp add: F_log_def env64_sel round_real_def)

lemma env64_sin_cos_zero:
  "mulF env64 (F_sin env64 (Fin s 0)) (F_cos env64 (Fin s 0)) = Fin s 0"
  by (simp add: mulF_def env64_sel round_real_def flit_one sval_def mrb_fmt_def fround_zero)

lemma env64_above_cutoff1: "fgt (fabs (Fin s 400)) (cutoff1 env64)"
  by (simp add: fgt_def fabs_def cutoff1_def env64_sel sval_def)

lemma env32_sel:
  "MRB_USE_FLOAT32 env32 = True" "nan_sgn env32 = ref_nan_sgn"
  "F_sin env32 = ref_fun binary32 sin (\<lambda>v. True) True (\<lambda>s. NAN)"
  "F_cos env32 = ref_fun binary32 cos (\<lambda>v. True) False (\<lambda>s. NAN)"
  by (simp_all add: env32_def ref_env_def)

lemma flit32_one: "flit binary32 1 = Fin False 1"
  by (simp add: flit_def round_eval)

lemma env32_sin_cos_zero:
  "mulF env32 (F_sin env32 (Fin s 0)) (F_cos env32 (Fin s 0)) = Fin s 0"
  by (simp add: mulF_def env32_sel round_real_def flit32_one sval_def mrb_fmt_def fround_zero)

lemma env32_above_cutoff1: "fgt (fabs (Fin s 60)) (cutoff1 env32)"
  by (simp add: fgt_def fabs_def cutoff1_def env32_sel sval_def)

lemmas method_defs =
  cmath_sin_def cmath_cos_def cmath_tan_def cmath_asin_def cmath_acos_def cmath_atan_def
  cmath_sinh_def cmath_cosh_def cmath_tanh_def cmath_asinh_def cmath_acosh_def
  cmath_atanh_def cmath_exp_def cmath_log_def cmath_log2_def cmath_log10_def cmath_sqrt_def
  DEF_CMATH_METHOD_def mrb_complex_new_def mrb_float_value_def

section \<open>Complex division\<close>

text \<open>
  Claim C1. For \<open>b\<close> with finite nonzero components, \<open>CXDIVc a b\<close> is to follow the
  algorithm that takes the ratio \<open>r\<close> of the smaller to the larger component of
  \<open>b\<close> and the denominator \<open>den = Im(b)*(1 + r*r)\<close> (or \<open>Re(b)*(1 + r*r)\<close> in the
  reverse case). The function of the source takes the denominator from the
  dividend: \<open>den = cmath_cimag(a) * (1 + ratio*ratio)\<close>. At \<open>a = 1 + 2i\<close>,
  \<open>b = 1 + i\<close>, in either format, it returns \<open>3/4 + i/4\<close>, where the algorithm of
  the claim returns the quotient \<open>3/2 + i/2\<close>.
\<close>

theorem CXDIVc_denominator_from_dividend:
  "CXDIVc E (Fin False 1, Fin False 2) (Fin False 1, Fin False 1)
     = (Fin False (3 / 4), Fin False (1 / 4))
   \<and> Divide_spec E (Fin False 1, Fin False 2) (Fin False 1, Fin False 1)
     = (Fin False (3 / 2), Fin False (1 / 2))"
proof -
  have code: "CXDIVc E (Fin False 1, Fin False 2) (Fin False 1, Fin False 1)
                = (Fin False (3 / 4), Fin False (1 / 4))"
    by (cases "MRB_USE_FLOAT32 E")
       (simp_all add: CXDIVc_def cx_simps fle_def divF_def mulF_def addF_def subF_def
          fsub_def fneg_def mrb_fmt_def round_eval)
  have spec: "Divide_spec E (Fin False 1, Fin False 2) (Fin False 1, Fin False 1)
                = (Fin False (3 / 2), Fin False (1 / 2))"
    by (cases "MRB_USE_FLOAT32 E")
       (simp_all add: Divide_spec_def fabs_def fle_def divF_def mulF_def addF_def subF_def
          fsub_def fneg_def mrb_fmt_def round_eval)
  show ?thesis using code spec by simp
qed

text \<open>
  The same defect through \<open>cmath_log\<close>, in a build that takes the \<open>WIN32_MSVC\<close>
  branch, with the reference library: \<open>log(Complex(1, 0), 2)\<close> divides
  \<open>0 + 0i\<close> by \<open>log 2 + 0i\<close>; the denominator made from the dividend is zero and
  the result is \<open>(NaN, NaN)\<close>, where the quotient is zero.
\<close>

lemma ln_two_bounds: "1 / 2 \<le> ln (2::real)" "ln (2::real) < 2"
proof -
  have "ln (1 / 2 :: real) \<le> 1 / 2 - 1" by (rule ln_le_minus_one) simp
  moreover have "ln (1 / 2 :: real) = - ln 2" by (simp add: ln_div)
  ultimately show "1 / 2 \<le> ln (2::real)" by simp
  show "ln (2::real) < 2" by (rule ln_less_self) simp
qed

lemma ref_log_two: "\<exists>m. 0 < m \<and> ref_log binary64 ln (Fin False 2) = Fin False m"
proof -
  have e: "pow2 (emin binary64) \<le> ln 2"
  proof -
    have "pow2 (emin binary64) \<le> pow2 (- 1)"
      by (intro pow2_mono) (simp add: emin_def binary64_def)
    also have "\<dots> = 1 / 2" by (simp add: pow2_def)
    finally show ?thesis using ln_two_bounds(1) by simp
  qed
  have p: "0 < prec binary64" by (simp add: binary64_def)
  note r = round_mag_normal[OF e p]
  have "round_mag binary64 (ln 2) < 4" using r(2) ln_two_bounds(2) by linarith
  also have "(4::real) \<le> pow2 (emax binary64)"
    using pow2_mono[of 2 "emax binary64"] by (simp add: binary64_def pow2_def)
  finally have "\<not> pow2 (emax binary64) \<le> round_mag binary64 (ln 2)" by simp
  moreover have "\<bar>ln (2::real)\<bar> = ln 2" "ln (2::real) \<noteq> 0" "\<not> ln (2::real) < 0"
    using ln_two_bounds(1) by simp_all
  ultimately have "ref_log binary64 ln (Fin False 2) = Fin False (round_mag binary64 (ln 2))"
    by (simp add: round_real_def flit_def fround_def Let_def)
  then show ?thesis using r(1) by blast
qed

lemma env64_msvc_sel:
  "MRB_USE_FLOAT32 env64_msvc = False" "WIN32_MSVC env64_msvc = True"
  "nan_sgn env64_msvc = ref_nan_sgn"
  "libm_log env64_msvc = ref_log binary64 ln"
  "F_hypot env64_msvc = ref_hypot binary64"
  "F_atan2 env64_msvc = ref_atan2 binary64"
  by (simp_all add: env64_msvc_def ref_env_def)

lemma clog_msvc_one: "cmath_clog env64_msvc (oneF, zeroF) = (zeroF, zeroF)"
  by (simp add: cmath_clog_def cx_simps F_log_def env64_msvc_sel ref_hypot_def ref_atan2_def
      round_real_def flit_one fround_zero Let_def)

lemma clog_msvc_two:
  "\<exists>m. 0 < m \<and> cmath_clog env64_msvc (Fin False 2, zeroF) = (Fin False m, zeroF)"
  using ref_log_two
  by (simp add: cmath_clog_def cx_simps F_log_def env64_msvc_sel ref_hypot_def ref_atan2_def
      round_real_def flit_two fround_zero Let_def)

lemma CXDIVc_zero_dividend:
  assumes "0 < m"
  shows "CXDIVc env64_msvc (zeroF, zeroF) (Fin False m, zeroF) = (NaN True, NaN True)"
proof -
  have one: "fround binary64 False 1 = oneF" by (simp add: round_eval)
  show ?thesis using assms
    by (simp add: CXDIVc_def cx_simps fle_def divF_def mulF_def addF_def subF_def fsub_def
        fneg_def mrb_fmt_def env64_msvc_sel sval_def fround_zero one ref_nan_sgn_def)
qed

lemma log_msvc_complex_one_base_two:
  "cmath_log env64_msvc (MRB_COMPLEX oneF zeroF) (Some (Fin False 2))
     = Inr (MRB_COMPLEX (NaN True) (NaN True))"
proof -
  obtain m where m: "0 < m" "cmath_clog env64_msvc (Fin False 2, zeroF) = (Fin False m, zeroF)"
    using clog_msvc_two by blast
  show ?thesis
    by (simp add: cmath_log_def cx_simps CXDIVc_cfg_def env64_msvc_sel clog_msvc_one m
        CXDIVc_zero_dividend mrb_complex_new_def)
qed

section \<open>The exponential\<close>

text \<open>
  Claim C2. For every operand \<open>(x, y)\<close>, \<open>cmath_cexp\<close> follows the table of
  special values before the general formula: a NaN \<open>x\<close> gives \<open>(NaN, y)\<close> when
  \<open>y == 0\<close> and \<open>(NaN, NaN)\<close> otherwise; \<open>x = +Infinity\<close> gives \<open>(+Infinity, NaN)\<close>
  when \<open>y\<close> is a NaN or infinite, and the operand itself when \<open>y == 0\<close>;
  \<open>x = -Infinity\<close> with \<open>y\<close> a NaN or infinite gives \<open>(+0, copysign(0, y))\<close>; every
  other operand gives \<open>(exp(x)*cos(y), exp(x)*sin(y))\<close>. In particular
  \<open>exp(Infinity + 0i) = (Infinity, 0)\<close>, \<open>exp(NaN + 0i) = (NaN, 0)\<close> and
  \<open>exp(-Infinity + Infinity*i) = (0, +0)\<close>.
\<close>

theorem cexp_special_values:
  "cmath_cexp E (x, y) =
     (if isnan x then (if feq y zeroF then (NAN, y) else (NAN, NAN))
      else if x = Infinity False \<and> (isnan y \<or> isinf y) then (INFINITY, NAN)
      else if x = Infinity False \<and> feq y zeroF then (x, y)
      else if x = Infinity True \<and> (isnan y \<or> isinf y) then (zeroF, copysign zeroF y)
      else (mulF E (F_exp E x) (F_cos E y), mulF E (F_exp E x) (F_sin E y)))
   \<and> cmath_cexp E (Infinity False, zeroF) = (Infinity False, zeroF)
   \<and> cmath_cexp E (NaN s, zeroF) = (NAN, zeroF)
   \<and> cmath_cexp E (Infinity True, Infinity False) = (zeroF, zeroF)"
proof -
  have table: "cmath_cexp E (x, y) =
     (if isnan x then (if feq y zeroF then (NAN, y) else (NAN, NAN))
      else if x = Infinity False \<and> (isnan y \<or> isinf y) then (INFINITY, NAN)
      else if x = Infinity False \<and> feq y zeroF then (x, y)
      else if x = Infinity True \<and> (isnan y \<or> isinf y) then (zeroF, copysign zeroF y)
      else (mulF E (F_exp E x) (F_cos E y), mulF E (F_exp E x) (F_sin E y)))"
    for x y
    by (cases x)
       (auto simp: cmath_cexp_def cmath_build_complex_def cmath_creal_def cmath_cimag_def
          feq_INFINITY feq_neg_INFINITY Let_def)
  show ?thesis
    by (simp add: table copysign_def sval_def)
qed

section \<open>The square root\<close>

text \<open>
  Claim C3. For every operand \<open>(x, y)\<close> with \<open>y == 0\<close> (a zero of either sign),
  \<open>cmath_csqrt\<close> returns \<open>(x, x)\<close> when \<open>x\<close> is a NaN, \<open>(0, copysign(sqrt(-x), y))\<close>
  when the sign bit of \<open>x\<close> is set (\<open>-0\<close> included), and \<open>(sqrt(x), y)\<close> otherwise,
  so the sign of the zero imaginary part is kept. In particular, with a library
  whose \<open>sqrt(4)\<close> is \<open>2\<close>, \<open>sqrt(-4 + 0i) = (0, 2)\<close> and \<open>sqrt(-4 - 0i) = (0, -2)\<close>.
\<close>

theorem csqrt_zero_imaginary:
  assumes "feq y zeroF"
  shows "cmath_csqrt E (x, y) =
           (if isnan x then (x, x)
            else if signbit x then (zeroF, copysign (F_sqrt E (fneg x)) y)
            else (F_sqrt E x, y))
         \<and> (F_sqrt E (Fin False 4) = Fin False 2 \<longrightarrow>
              cmath_csqrt E (Fin True 4, Fin False 0) = (zeroF, Fin False 2)
            \<and> cmath_csqrt E (Fin True 4, Fin True 0) = (zeroF, Fin True 2))"
  using assms
  by (simp add: cmath_csqrt_def cx_simps Let_def sval_def fneg_def copysign_def)

text \<open>The reference environment: \<open>sqrt(-4 \<plusminus> 0i)\<close> and \<open>sqrt(4 - 0i)\<close>.\<close>

theorem csqrt_zero_imaginary_witness:
  "feq zeroF zeroF
   \<and> F_sqrt env64 (Fin False 4) = Fin False 2
   \<and> cmath_csqrt env64 (Fin True 4, Fin False 0) = (zeroF, Fin False 2)
   \<and> cmath_csqrt env64 (Fin True 4, Fin True 0) = (zeroF, Fin True 2)
   \<and> cmath_csqrt env64 (Fin False 4, Fin True 0) = (Fin False 2, Fin True 0)"
proof -
  have h: "feq zeroF zeroF" "feq (Fin True 0) zeroF" by (simp_all add: sval_def)
  show ?thesis
    using h(1) env64_sqrt_four csqrt_zero_imaginary[OF h(1), of env64 "Fin True 4"]
      csqrt_zero_imaginary[OF h(2), of env64 "Fin False 4"]
    by simp
qed

section \<open>Real and complex results\<close>

text \<open>
  Claim C4. For every numeric operand, the result of a method is a Complex if
  and only if the operand is a Complex or, for \<open>log\<close>, \<open>log10\<close>, \<open>log2\<close> and \<open>sqrt\<close>
  only, a real number below zero; a NaN and \<open>-0\<close> are not below zero. Every
  other result is a Float, so every other method returns a Float for every
  real operand.
\<close>

theorem complex_result_iff:
  assumes "z \<noteq> MRB_OTHER"
  shows "list_all (\<lambda>(name, f). is_complex_result (f z)
                     = (complex_operand z \<or> (name \<in> set promoting \<and> negative_real z)))
           (cmath_methods E base)
       \<and> list_all (\<lambda>(name, f). is_float_result (f z) = (\<not> is_complex_result (f z)))
           (cmath_methods E base)
       \<and> \<not> negative_real (MRB_FLOAT (NaN s)) \<and> \<not> negative_real (MRB_FLOAT (Fin True 0))"
  using assms
  by (cases z; cases base)
     (simp_all add: cmath_methods_def method_defs cx_simps Let_def is_complex_result_def
        is_float_result_def complex_operand_def negative_real_def promoting_def
        of_mrb_int_negative sval_def)

text \<open>The operand \<open>-4.0\<close>: \<open>sqrt\<close> and \<open>log\<close> return a Complex, \<open>sin\<close> a Float.\<close>

theorem complex_result_iff_witness:
  "MRB_FLOAT (Fin True 4) \<noteq> MRB_OTHER
   \<and> is_complex_result (cmath_sqrt env64 (MRB_FLOAT (Fin True 4)))
   \<and> is_complex_result (cmath_log env64 (MRB_FLOAT (Fin True 4)) None)
   \<and> \<not> is_complex_result (cmath_sin env64 (MRB_FLOAT (Fin True 4)))
   \<and> is_float_result (cmath_sin env64 (MRB_FLOAT (Fin True 4)))"
proof -
  have h: "MRB_FLOAT (Fin True 4) \<noteq> MRB_OTHER" by simp
  show ?thesis
    using complex_result_iff[OF h, of env64 None]
    by (simp add: cmath_methods_def promoting_def negative_real_def complex_operand_def
        sval_def)
qed

section \<open>Tangent and hyperbolic tangent\<close>

text \<open>Between the two cutoffs \<open>cmath_ctanh\<close> is the mirror image of \<open>cmath_ctan\<close>.\<close>

lemma ctanh_between_cutoffs:
  assumes "\<not> fgt (fabs x) (cutoff1 E)" "fgt (fabs x) (cutoff2 E)"
  shows "cmath_ctanh E (x, y) = prod.swap (cmath_ctan E (y, x))"
  using assms by (simp add: cmath_ctanh_def cmath_ctan_def cx_simps Let_def)

text \<open>
  Claim C5. \<open>tanh(x + iy)\<close> is to be the component swap of \<open>tan(y + ix)\<close> in all
  three branches; above the outer cutoff its imaginary part is to be a zero
  with the sign of \<open>sin(y)*cos(y)\<close>, as the real part of \<open>tan\<close> is. The source
  returns the constant \<open>0.0F\<close> there: for \<open>|x|\<close> above the outer cutoff
  \<open>cmath_ctanh\<close> gives \<open>(copysign(1, x), +0)\<close>, whatever the sign of
  \<open>sin(y)*cos(y)\<close>, and the swap of \<open>cmath_ctan\<close> gives
  \<open>(copysign(1, x), copysign(0, sin(y)*cos(y)))\<close>.
\<close>

theorem ctanh_outer_cutoff:
  assumes "fgt (fabs x) (cutoff1 E)"
  shows "cmath_ctanh E (x, y) = (copysign oneF x, zeroF)
         \<and> prod.swap (cmath_ctan E (y, x))
           = (copysign oneF x, copysign zeroF (mulF E (F_sin E y) (F_cos E y)))"
  using assms by (simp add: cmath_ctanh_def cmath_ctan_def cx_simps Let_def)

text \<open>
  The reference environment at \<open>400 - 0i\<close>: \<open>cmath_ctanh\<close> returns \<open>(1, +0)\<close>, the
  swap of \<open>cmath_ctan\<close> at \<open>-0 + 400i\<close> is \<open>(1, -0)\<close>.
\<close>

theorem ctanh_outer_cutoff_witness:
  "fgt (fabs (Fin False 400)) (cutoff1 env64)
   \<and> cmath_ctanh env64 (Fin False 400, Fin True 0) = (oneF, Fin False 0)
   \<and> prod.swap (cmath_ctan env64 (Fin True 0, Fin False 400)) = (oneF, Fin True 0)"
  using env64_above_cutoff1[of False]
    ctanh_outer_cutoff[OF env64_above_cutoff1[of False], of "Fin True 0"]
  by (simp add: env64_sin_cos_zero copysign_def)

text \<open>
  Claim C6. For every \<open>(x, y)\<close> with \<open>|y|\<close> above the outer cutoff (373 in a
  double build, 53 in a float build), \<open>cmath_ctan\<close> returns exactly
  \<open>(copysign(0, sin(x)*cos(x)), copysign(1, y))\<close>: the imaginary part is 1 with
  the sign of \<open>y\<close>, the real part a zero with the sign of \<open>sin(x)*cos(x)\<close>.
\<close>

theorem ctan_outer_cutoff:
  assumes "fgt (fabs y) (cutoff1 E)"
  shows "cmath_ctan E (x, y)
           = (copysign zeroF (mulF E (F_sin E x) (F_cos E x)), copysign oneF y)
         \<and> cmath_ctan E (x, y)
           = (Fin (signbit (mulF E (F_sin E x) (F_cos E x))) 0, Fin (signbit y) 1)
         \<and> cutoff1 E = Fin False (if MRB_USE_FLOAT32 E then 53 else 373)"
  using assms by (simp add: cmath_ctan_def cx_simps Let_def copysign_def cutoff1_def)

text \<open>
  The reference environment at \<open>0 + 400i\<close> and \<open>0 - 400i\<close> in a double build, and
  at \<open>0 + 60i\<close> in a float build.
\<close>

theorem ctan_outer_cutoff_witness:
  "fgt (fabs (Fin False 400)) (cutoff1 env64)
   \<and> cmath_ctan env64 (zeroF, Fin False 400) = (zeroF, oneF)
   \<and> cmath_ctan env64 (zeroF, Fin True 400) = (zeroF, Fin True 1)
   \<and> fgt (fabs (Fin False 60)) (cutoff1 env32)
   \<and> cmath_ctan env32 (zeroF, Fin False 60) = (zeroF, oneF)"
  using env64_above_cutoff1[of False] env32_above_cutoff1[of False]
    ctan_outer_cutoff[OF env64_above_cutoff1[of False], of zeroF]
    ctan_outer_cutoff[OF env64_above_cutoff1[of True], of zeroF]
    ctan_outer_cutoff[OF env32_above_cutoff1[of False], of zeroF]
  by (simp add: env64_sin_cos_zero env32_sin_cos_zero copysign_def)

section \<open>Inverse circular functions\<close>

text \<open>
  Claim C7. For every \<open>z\<close>, \<open>asin(z) = rot_inv(asinh(rot(z)))\<close> with
  \<open>rot(x, y) = (-y, x)\<close> and \<open>rot_inv(x, y) = (y, -x)\<close>: two sign swaps around one
  call; \<open>atan\<close> is the same around \<open>atanh\<close>; and \<open>acos(z)\<close> is
  \<open>rot_inv(acosh(z))\<close>, negated as a whole exactly when the sign bit of its real
  part is set.
\<close>

theorem inverse_circular_by_rotation:
  "cmath_casin E z = rot_inv (cmath_casinh E (rot z))
   \<and> cmath_catan E z = rot_inv (cmath_catanh E (rot z))
   \<and> cmath_cacos E z =
       (if signbit (fst (rot_inv (cmath_cacosh E z)))
        then cx_neg (rot_inv (cmath_cacosh E z))
        else rot_inv (cmath_cacosh E z))"
  by (simp add: cmath_casin_def cmath_catan_def cmath_cacos_def rot_def rot_inv_def
      cx_simps Let_def)

section \<open>The logarithm to a base\<close>

text \<open>
  Claim C8, as the source has it. For every numeric operand \<open>z\<close> and every base,
  \<open>log(z, base)\<close> divides \<open>log(z)\<close> by the logarithm of \<open>base + 0i\<close> with the
  complex division when \<open>z\<close> takes the complex path (a Complex, or a real number
  below zero); when \<open>z\<close> takes the real path the result is the Float
  \<open>log(z) / log(base)\<close>, a division of two real logarithms. Without a base
  nothing is divided: the result is \<open>log(z)\<close>.
\<close>

theorem log_with_base:
  assumes "cmath_get_complex E z = Inr (is_complex, re, im)"
  shows "cmath_log E z (Some base) =
           (if is_complex \<or> flt re zeroF then
              Inr (MRB_COMPLEX
                     (fst (CXDIVc_cfg E (cmath_clog E (re, im)) (cmath_clog E (base, zeroF))))
                     (snd (CXDIVc_cfg E (cmath_clog E (re, im)) (cmath_clog E (base, zeroF)))))
            else Inr (MRB_FLOAT (divF E (F_log E re) (F_log E base))))
         \<and> cmath_log E z None =
           (if is_complex \<or> flt re zeroF then
              Inr (MRB_COMPLEX (fst (cmath_clog E (re, im))) (snd (cmath_clog E (re, im))))
            else Inr (MRB_FLOAT (F_log E re)))"
  using assms
  by (simp add: cmath_log_def cx_simps Let_def mrb_complex_new_def mrb_float_value_def)

text \<open>The reference environment: \<open>log(-1.0, 2.0)\<close> and \<open>log(1.0)\<close>.\<close>

theorem log_with_base_witness:
  "cmath_get_complex env64 (MRB_FLOAT (Fin True 1)) = Inr (False, Fin True 1, zeroF)
   \<and> cmath_log env64 (MRB_FLOAT (Fin True 1)) (Some (Fin False 2)) =
       Inr (MRB_COMPLEX
         (fst (cx_div env64 (cmath_clog env64 (Fin True 1, zeroF))
                 (cmath_clog env64 (Fin False 2, zeroF))))
         (snd (cx_div env64 (cmath_clog env64 (Fin True 1, zeroF))
                 (cmath_clog env64 (Fin False 2, zeroF)))))
   \<and> cmath_log env64 (MRB_FLOAT oneF) None = Inr (MRB_FLOAT zeroF)"
proof -
  have h: "cmath_get_complex env64 (MRB_FLOAT (Fin True 1)) = Inr (False, Fin True 1, zeroF)"
    "cmath_get_complex env64 (MRB_FLOAT oneF) = Inr (False, oneF, zeroF)"
    by simp_all
  show ?thesis
    using h(1) log_with_base[OF h(1), of "Fin False 2"] log_with_base[OF h(2), of "Fin False 2"]
    by (simp add: sval_def CXDIVc_cfg_def env64_sel env64_log_one)
qed

text \<open>
  The claim as the specification words it, that the quotient is the complex one
  whichever path \<open>z\<close> takes, fails at \<open>log(1.0, -2.0)\<close>: the real path returns the
  Float \<open>log(1) / log(-2)\<close>, a NaN, and no Complex.
\<close>

theorem log_real_path_counterexample:
  "cmath_log env64 (MRB_FLOAT oneF) (Some (Fin True 2)) = Inr (MRB_FLOAT NAN)
   \<and> cmath_log env64 (MRB_FLOAT oneF) (Some (Fin True 2)) \<noteq>
       Inr (MRB_COMPLEX
         (fst (CXDIVc_cfg env64 (cmath_clog env64 (oneF, zeroF))
                 (cmath_clog env64 (Fin True 2, zeroF))))
         (snd (CXDIVc_cfg env64 (cmath_clog env64 (oneF, zeroF))
                 (cmath_clog env64 (Fin True 2, zeroF)))))"
proof -
  have l: "F_log env64 (Fin True 2) = NAN"
    by (simp add: F_log_def env64_sel)
  have "cmath_log env64 (MRB_FLOAT oneF) (Some (Fin True 2)) = Inr (MRB_FLOAT NAN)"
    by (simp add: cmath_log_def sval_def l env64_log_one divF_def env64_sel ref_nan_sgn_def
        mrb_float_value_def)
  then show ?thesis by simp
qed

section \<open>Errors\<close>

text \<open>
  Claim C9. A method raises if and only if its operand is neither a real number
  nor a Complex: the type error of \<open>cmath_get_complex\<close>, before any function on
  complex values runs. Those functions do not raise: every pair, a NaN or an
  infinity among its components or not, has a result pair, which the method
  returns as a Complex.
\<close>

theorem type_error_iff_not_numeric:
  "list_all (\<lambda>(name, f). isl (f z) = (z = MRB_OTHER)) (cmath_methods E base)
   \<and> list_all (\<lambda>(name, f). f MRB_OTHER = Inl (E_TYPE_ERROR ''Numeric required''))
       (cmath_methods E base)
   \<and> list_all (\<lambda>(name, f). is_complex_result (f (MRB_COMPLEX x y))) (cmath_methods E base)
   \<and> DEF_CMATH_METHOD cname fname E (MRB_COMPLEX x y)
       = Inr (MRB_COMPLEX (fst (cname (x, y))) (snd (cname (x, y))))
   \<and> cmath_sqrt E (MRB_COMPLEX x y)
       = Inr (MRB_COMPLEX (fst (cmath_csqrt E (x, y))) (snd (cmath_csqrt E (x, y))))"
  by (cases z; cases base)
     (simp_all add: cmath_methods_def method_defs cx_simps Let_def is_complex_result_def)

section \<open>Integer operands\<close>

text \<open>
  Claim C10. Every method accepts an Integer operand: \<open>cmath_get_complex\<close>
  converts it to the \<open>mrb_float\<close> of that integer (exactly, when the integer has
  no more bits than the significand), with imaginary part zero, and
  classifies it as real. Each method then does what it does on that Float: of
  an integer below zero \<open>sqrt\<close>, \<open>log\<close>, \<open>log2\<close> and \<open>log10\<close> return a Complex, and
  every other call on an Integer returns a Float.
\<close>

theorem integer_operand:
  "cmath_get_complex E (MRB_INTEGER n) = Inr (False, of_mrb_int (mrb_fmt E) n, zeroF)
   \<and> (\<bar>n\<bar> < 2 ^ prec (mrb_fmt E) \<longrightarrow> of_mrb_int (mrb_fmt E) n = Fin (n < 0) \<bar>of_int n\<bar>)
   \<and> list_all (\<lambda>(name, f). f (MRB_INTEGER n) = f (MRB_FLOAT (of_mrb_int (mrb_fmt E) n)))
       (cmath_methods E base)
   \<and> list_all (\<lambda>(name, f). is_complex_result (f (MRB_INTEGER n))
                   = (name \<in> set promoting \<and> n < 0))
       (cmath_methods E base)
   \<and> list_all (\<lambda>(name, f). is_float_result (f (MRB_INTEGER n))
                   = (\<not> (name \<in> set promoting \<and> n < 0)))
       (cmath_methods E base)"
proof -
  have "list_all (\<lambda>(name, f). f (MRB_INTEGER n) = f (MRB_FLOAT (of_mrb_int (mrb_fmt E) n)))
       (cmath_methods E base)"
    by (simp add: cmath_methods_def method_defs)
  moreover have "list_all (\<lambda>(name, f). is_complex_result (f (MRB_INTEGER n))
                   = (name \<in> set promoting \<and> n < 0)) (cmath_methods E base)"
    by (cases base)
       (simp_all add: cmath_methods_def method_defs cx_simps Let_def is_complex_result_def
          promoting_def of_mrb_int_negative)
  moreover have "list_all (\<lambda>(name, f). is_float_result (f (MRB_INTEGER n))
                   = (\<not> (name \<in> set promoting \<and> n < 0))) (cmath_methods E base)"
    by (cases base)
       (simp_all add: cmath_methods_def method_defs cx_simps Let_def is_float_result_def
          promoting_def of_mrb_int_negative)
  ultimately show ?thesis by (simp add: of_mrb_int_exact)
qed

text \<open>The reference environment at the integers \<open>-4\<close> and \<open>4\<close>.\<close>

theorem integer_operand_witness:
  "\<bar>- 4 :: int\<bar> < 2 ^ prec (mrb_fmt env64)
   \<and> of_mrb_int (mrb_fmt env64) (- 4) = Fin True 4
   \<and> is_complex_result (cmath_sqrt env64 (MRB_INTEGER (- 4)))
   \<and> is_float_result (cmath_sin env64 (MRB_INTEGER (- 4)))
   \<and> is_float_result (cmath_sqrt env64 (MRB_INTEGER 4))"
proof -
  note neg = integer_operand[of env64 "- 4" None]
  note pos = integer_operand[of env64 4 None]
  have h: "\<bar>- 4 :: int\<bar> < 2 ^ prec (mrb_fmt env64)"
    by (simp add: mrb_fmt_def env64_sel binary64_def)
  have v: "of_mrb_int (mrb_fmt env64) (- 4) = Fin True 4"
    using neg[THEN conjunct2, THEN conjunct1] h by simp
  have c: "is_complex_result (cmath_sqrt env64 (MRB_INTEGER (- 4)))"
    using neg[THEN conjunct2, THEN conjunct2, THEN conjunct2, THEN conjunct1]
    by (simp add: cmath_methods_def promoting_def)
  have f: "is_float_result (cmath_sin env64 (MRB_INTEGER (- 4)))"
    using neg[THEN conjunct2, THEN conjunct2, THEN conjunct2, THEN conjunct2]
    by (simp add: cmath_methods_def promoting_def)
  have g: "is_float_result (cmath_sqrt env64 (MRB_INTEGER 4))"
    using pos[THEN conjunct2, THEN conjunct2, THEN conjunct2, THEN conjunct2]
    by (simp add: cmath_methods_def promoting_def)
  show ?thesis using h v c f g by simp
qed

end
